theory Spec2Isabelle
  imports Complex_Main "HOL-Library.AList" "HOL-Library.Multiset"
begin

section \<open>JavaScript values\<close>

text \<open>
  The registry of \<^verbatim>\<open>src/frontend/web/src/App.tsx\<close> keeps every record as JSON text in a
  key-value ledger. \<^verbatim>\<open>JSON.parse\<close> returns a value of any shape and the TypeScript
  annotations are erased at run time, so the model works on untyped JSON values.
  \<open>JNum\<close> carries an integer: the numbers of this program are timestamps in whole seconds.
  A JavaScript value that may be \<^verbatim>\<open>undefined\<close> is a \<open>json option\<close>, \<open>None\<close> being
  \<^verbatim>\<open>undefined\<close>. Strings are byte strings; where the text is ASCII a byte is a character.
\<close>

datatype json =
    JNull
  | JBool bool
  | JNum int
  | JStr string
  | JArr "json list"
  | JObj "(string \<times> json) list"

text \<open>The exceptions that can reach a \<^verbatim>\<open>catch\<close> block of the component.\<close>

datatype exn =
    Error string
  | SyntaxError
  | TypeError
  | InvalidCharacterError
  | TransportError string

text \<open>
  The library functions the component calls on ledger values are not code of the
  repository; they are a parameter of the model.
  \<^item> \<open>parse b\<close> is \<^verbatim>\<open>JSON.parse(ethers.toUtf8String(b))\<close>, \<open>None\<close> when either call throws;
  \<^item> \<open>stringify v\<close> is \<^verbatim>\<open>ethers.toUtf8Bytes(JSON.stringify(v))\<close>;
  \<^item> \<open>btoaStringify v\<close> is \<^verbatim>\<open>btoa(JSON.stringify(v))\<close>, \<open>None\<close> when \<^verbatim>\<open>btoa\<close> throws.
\<close>

record codec =
  parse :: "string \<Rightarrow> json option"
  stringify :: "json \<Rightarrow> string"
  btoaStringify :: "json \<Rightarrow> string option"

subsection \<open>Conversions of the language\<close>

text \<open>Decimal notation of a number, as a template literal prints an integer.\<close>

definition digitChar :: "nat \<Rightarrow> char" where
  "digitChar d = ''0123456789'' ! d"

fun showNat :: "nat \<Rightarrow> string" where
  "showNat n =
     (if n < 10 then [digitChar n]
      else showNat (n div 10) @ [digitChar (n mod 10)])"

declare showNat.simps [simp del]

definition showInt :: "int \<Rightarrow> string" where
  "showInt i = (if i < 0 then CHR ''-'' # showNat (nat (- i)) else showNat (nat i))"

fun joinComma :: "string list \<Rightarrow> string" where
  "joinComma [] = []"
| "joinComma [s] = s"
| "joinComma (s # t # ss) = s @ CHR '','' # joinComma (t # ss)"

text \<open>
  \<open>toString v\<close> is the string a template literal \<^verbatim>\<open>`${v}`\<close> inserts for a value that came
  out of \<^verbatim>\<open>JSON.parse\<close>.
\<close>

fun toString :: "json \<Rightarrow> string" where
  "toString JNull = ''null''"
| "toString (JBool b) = (if b then ''true'' else ''false'')"
| "toString (JNum n) = showInt n"
| "toString (JStr s) = s"
| "toString (JArr xs) = joinComma (map (\<lambda>x. if x = JNull then [] else toString x) xs)"
| "toString (JObj kvs) = ''[object Object]''"

text \<open>Truthiness, as the operator \<^verbatim>\<open>||\<close> tests it.\<close>

fun truthy :: "json \<Rightarrow> bool" where
  "truthy JNull = False"
| "truthy (JBool b) = b"
| "truthy (JNum n) = (n \<noteq> 0)"
| "truthy (JStr s) = (s \<noteq> [])"
| "truthy (JArr xs) = True"
| "truthy (JObj kvs) = True"

definition orElse :: "json option \<Rightarrow> json \<Rightarrow> json" where
  "orElse v d = (case v of None \<Rightarrow> d | Some x \<Rightarrow> if truthy x then x else d)"

text \<open>
  \<open>getProp v f\<close> is \<^verbatim>\<open>v.f\<close> for a value other than \<^verbatim>\<open>null\<close> and one of the field names
  this program reads (\<^verbatim>\<open>data\<close>, \<^verbatim>\<open>timestamp\<close>, \<^verbatim>\<open>owner\<close>, \<^verbatim>\<open>sampleType\<close>, \<^verbatim>\<open>status\<close>,
  \<^verbatim>\<open>fheResult\<close>): an object answers with its own property, any other value has none.
\<close>

fun getProp :: "json \<Rightarrow> string \<Rightarrow> json option" where
  "getProp (JObj kvs) f = map_of kvs f"
| "getProp v f = None"

text \<open>The own enumerable properties that the spread \<^verbatim>\<open>{...v}\<close> copies.\<close>

fun spread :: "json \<Rightarrow> (string \<times> json) list" where
  "spread (JObj kvs) = kvs"
| "spread (JArr xs) = zip (map showNat [0..<length xs]) xs"
| "spread (JStr s) = zip (map showNat [0..<length s]) (map (\<lambda>c. JStr [c]) s)"
| "spread v = []"

text \<open>The values \<^verbatim>\<open>for (const key of v)\<close> visits; a value that is not iterable throws.\<close>

fun forOf :: "json \<Rightarrow> exn + json list" where
  "forOf (JArr xs) = Inr xs"
| "forOf (JStr s) = Inr (map (\<lambda>c. JStr [c]) s)"
| "forOf v = Inl TypeError"

text \<open>\<^verbatim>\<open>v.push(x)\<close>: only an array has the method.\<close>

fun push :: "json \<Rightarrow> json \<Rightarrow> exn + json" where
  "push (JArr xs) x = Inr (JArr (xs @ [x]))"
| "push v x = Inl TypeError"

text \<open>\<^verbatim>\<open>s.toLowerCase()\<close> on ASCII text: the letters A to Z change, nothing else does.\<close>

definition lowerChar :: "char \<Rightarrow> char" where
  "lowerChar c =
     (case map_of (zip ''ABCDEFGHIJKLMNOPQRSTUVWXYZ'' ''abcdefghijklmnopqrstuvwxyz'') c of
        None \<Rightarrow> c
      | Some l \<Rightarrow> l)"

definition toLowerCase :: "string \<Rightarrow> string" where
  "toLowerCase s = map lowerChar s"

section \<open>The ledger\<close>

text \<open>
  The contract is the key-value ledger of the specification: \<^verbatim>\<open>getData\<close> answers with the
  bytes stored under a key, empty when there are none, and an acknowledged \<^verbatim>\<open>setData\<close>
  overwrites them. Every call may fail in transport: \<open>replies\<close> lists the outcome of the
  calls still to come, in the order they will be made (a call beyond the list succeeds).
  \<open>sets\<close> logs the acknowledged writes, oldest first.
  \<open>readOnly\<close> and \<open>signer\<close> say whether \<^verbatim>\<open>getContractReadOnly\<close> and
  \<^verbatim>\<open>getContractWithSigner\<close> hand out a contract rather than \<^verbatim>\<open>null\<close>, \<open>available\<close> is
  the answer of \<^verbatim>\<open>isAvailable\<close>.
\<close>

datatype reply = Ok | Fail string

record world =
  store :: "string \<Rightarrow> string"
  sets :: "(string \<times> string) list"
  readOnly :: bool
  signer :: bool
  available :: bool
  replies :: "reply list"

definition nextReply :: "world \<Rightarrow> reply \<times> world" where
  "nextReply w = (case replies w of [] \<Rightarrow> (Ok, w) | r # rs \<Rightarrow> (r, w\<lparr>replies := rs\<rparr>))"

definition getContractReadOnly :: "world \<Rightarrow> (exn + bool) \<times> world" where
  "getContractReadOnly w =
     (case nextReply w of
        (Fail m, w') \<Rightarrow> (Inl (TransportError m), w')
      | (Ok, w') \<Rightarrow> (Inr (readOnly w'), w'))"

definition getContractWithSigner :: "world \<Rightarrow> (exn + bool) \<times> world" where
  "getContractWithSigner w =
     (case nextReply w of
        (Fail m, w') \<Rightarrow> (Inl (TransportError m), w')
      | (Ok, w') \<Rightarrow> (Inr (signer w'), w'))"

definition isAvailable :: "world \<Rightarrow> (exn + bool) \<times> world" where
  "isAvailable w =
     (case nextReply w of
        (Fail m, w') \<Rightarrow> (Inl (TransportError m), w')
      | (Ok, w') \<Rightarrow> (Inr (available w'), w'))"

definition getData :: "string \<Rightarrow> world \<Rightarrow> (exn + string) \<times> world" where
  "getData k w =
     (case nextReply w of
        (Fail m, w') \<Rightarrow> (Inl (TransportError m), w')
      | (Ok, w') \<Rightarrow> (Inr (store w' k), w'))"

definition setData :: "string \<Rightarrow> string \<Rightarrow> world \<Rightarrow> (exn + unit) \<times> world" where
  "setData k v w =
     (case nextReply w of
        (Fail m, w') \<Rightarrow> (Inl (TransportError m), w')
      | (Ok, w') \<Rightarrow> (Inr (), w'\<lparr>store := (store w')(k := v), sets := sets w' @ [(k, v)]\<rparr>))"

section \<open>The component\<close>

text \<open>
  \<^verbatim>\<open>interface MassSpecData\<close>, with the values its fields hold at run time: \<open>ident\<close> is the
  field \<^verbatim>\<open>id\<close>.
\<close>

record MassSpecData =
  ident :: json
  encryptedData :: "json option"
  timestamp :: "json option"
  owner :: "json option"
  sampleType :: "json option"
  status :: json
  fheResult :: "json option"

text \<open>
  The state of the component that the three operations read or set. \<open>provider\<close> says
  whether a wallet is connected. In \<open>transaction_status\<close> the field \<open>outcome\<close> is the
  source's \<^verbatim>\<open>status\<close> (\<open>Failed\<close> for \<^verbatim>\<open>"error"\<close>); a message built from a caught exception
  is kept as that exception. The timers that hide the notice and clear the form later
  are not part of the model.
\<close>

datatype tx_outcome = Pending | Success | Failed

datatype tx_message = Text string | UploadFailed exn | AnalysisFailed exn

record transaction_status =
  visible :: bool
  outcome :: tx_outcome
  message :: tx_message

record new_data =
  formSampleType :: string
  description :: string
  massSpecData :: string

record app =
  account :: string
  provider :: bool
  dataList :: "MassSpecData list"
  isRefreshing :: bool
  loading :: bool
  uploading :: bool
  transactionStatus :: transaction_status
  newData :: new_data

subsection \<open>loadDataList\<close>

text \<open>Lines 94 to 103: the index, empty when the key holds nothing or does not parse.\<close>

definition readKeys :: "codec \<Rightarrow> string \<Rightarrow> json" where
  "readKeys J keysBytes =
     (if length keysBytes > 0
      then (case parse J keysBytes of None \<Rightarrow> JArr [] | Some v \<Rightarrow> v)
      else JArr [])"

text \<open>Lines 113 to 121: the object pushed for a parsed value; reading a field of
  \<^verbatim>\<open>null\<close> throws.\<close>

definition toMassSpecData :: "json \<Rightarrow> json \<Rightarrow> exn + MassSpecData" where
  "toMassSpecData key data =
     (if data = JNull then Inl TypeError
      else Inr \<lparr> ident = key,
                 encryptedData = getProp data ''data'',
                 timestamp = getProp data ''timestamp'',
                 owner = getProp data ''owner'',
                 sampleType = getProp data ''sampleType'',
                 status = orElse (getProp data ''status'') (JStr ''pending''),
                 fheResult = getProp data ''fheResult'' \<rparr>)"

text \<open>Lines 110 to 125: what the bytes of one record add to the list.\<close>

definition decodeBytes :: "codec \<Rightarrow> json \<Rightarrow> string \<Rightarrow> MassSpecData option" where
  "decodeBytes J key dataBytes =
     (if length dataBytes > 0
      then (case parse J dataBytes of
              None \<Rightarrow> None
            | Some data \<Rightarrow>
                (case toMassSpecData key data of Inl e \<Rightarrow> None | Inr d \<Rightarrow> Some d))
      else None)"

text \<open>Lines 108 to 128: one turn of the loop.\<close>

definition loadOne :: "codec \<Rightarrow> json \<Rightarrow> world \<Rightarrow> MassSpecData option \<times> world" where
  "loadOne J key w =
     (case getData (''massspec_'' @ toString key) w of
        (Inl e, w') \<Rightarrow> (None, w')
      | (Inr dataBytes, w') \<Rightarrow> (decodeBytes J key dataBytes, w'))"

fun loadRecords ::
  "codec \<Rightarrow> json list \<Rightarrow> MassSpecData list \<Rightarrow> world \<Rightarrow> MassSpecData list \<times> world" where
  "loadRecords J [] list w = (list, w)"
| "loadRecords J (key # keys) list w =
     (case loadOne J key w of
        (None, w') \<Rightarrow> loadRecords J keys list w'
      | (Some d, w') \<Rightarrow> loadRecords J keys (list @ [d]) w')"

text \<open>
  Line 131, \<^verbatim>\<open>list.sort((a, b) => b.timestamp - a.timestamp)\<close>: a stable sort by
  descending timestamp. Where a timestamp is not a number the comparison of the source is
  not consistent and the order it leaves is implementation-defined; the model then
  counts that timestamp as 0, and no theorem about the order covers that case.
\<close>

definition timestampNum :: "MassSpecData \<Rightarrow> int" where
  "timestampNum d = (case timestamp d of Some (JNum n) \<Rightarrow> n | _ \<Rightarrow> 0)"

definition sortByTimestamp :: "MassSpecData list \<Rightarrow> MassSpecData list" where
  "sortByTimestamp list = sort_key (\<lambda>d. - timestampNum d) list"

text \<open>
  The body of the \<^verbatim>\<open>try\<close> block, lines 84 to 132: the list to set, \<open>None\<close> after an early
  \<^verbatim>\<open>return\<close>, or the exception thrown.
\<close>

definition loadDataListTry ::
  "codec \<Rightarrow> world \<Rightarrow> (exn + MassSpecData list option) \<times> world" where
  "loadDataListTry J w =
     (case getContractReadOnly w of
        (Inl e, w1) \<Rightarrow> (Inl e, w1)
      | (Inr contract, w1) \<Rightarrow>
          if \<not> contract then (Inr None, w1)
          else
            (case isAvailable w1 of
               (Inl e, w2) \<Rightarrow> (Inl e, w2)
             | (Inr isAvail, w2) \<Rightarrow>
                 if \<not> isAvail then (Inr None, w2)
                 else
                   (case getData ''massspec_keys'' w2 of
                      (Inl e, w3) \<Rightarrow> (Inl e, w3)
                    | (Inr keysBytes, w3) \<Rightarrow>
                        (case forOf (readKeys J keysBytes) of
                           Inl e \<Rightarrow> (Inl e, w3)
                         | Inr keys \<Rightarrow>
                             (case loadRecords J keys [] w3 of
                                (list, w4) \<Rightarrow> (Inr (Some (sortByTimestamp list)), w4))))))"

text \<open>
  \<^verbatim>\<open>loadDataList\<close>: the \<^verbatim>\<open>catch\<close> block only logs, so no exception leaves the function and
  the list is set only when the loop has run.
\<close>

definition loadDataList :: "codec \<Rightarrow> app \<Rightarrow> world \<Rightarrow> app \<times> world" where
  "loadDataList J st w =
     (case loadDataListTry J w of
        (Inr (Some list), w') \<Rightarrow>
          (st\<lparr>dataList := list, isRefreshing := False, loading := False\<rparr>, w')
      | (Inr None, w') \<Rightarrow> (st\<lparr>isRefreshing := False, loading := False\<rparr>, w')
      | (Inl e, w') \<Rightarrow> (st\<lparr>isRefreshing := False, loading := False\<rparr>, w'))"

subsection \<open>uploadData\<close>

text \<open>Line 163. \<open>now\<close> is the reading of \<^verbatim>\<open>Date.now()\<close>, \<open>rnd\<close> the digits taken from
  \<^verbatim>\<open>Math.random()\<close>.\<close>

definition newDataId :: "int \<Rightarrow> string \<Rightarrow> string" where
  "newDataId now rnd = ''ms-'' @ showInt now @ ''-'' @ rnd"

text \<open>Lines 165 to 171. \<open>now\<close> is the second reading of the clock, in milliseconds.\<close>

definition newRecord :: "string \<Rightarrow> int \<Rightarrow> string \<Rightarrow> string \<Rightarrow> json" where
  "newRecord encrypted now acc sample =
     JObj [(''data'', JStr encrypted),
           (''timestamp'', JNum (now div 1000)),
           (''owner'', JStr acc),
           (''sampleType'', JStr sample),
           (''status'', JStr ''pending'')]"

definition newDataJson :: "new_data \<Rightarrow> json" where
  "newDataJson nd =
     JObj [(''sampleType'', JStr (formSampleType nd)),
           (''description'', JStr (description nd)),
           (''massSpecData'', JStr (massSpecData nd))]"

definition uploadSuccess :: transaction_status where
  "uploadSuccess =
     \<lparr> visible = True, outcome = Success,
       message = Text ''Mass spec data encrypted and uploaded securely!'' \<rparr>"

text \<open>The body of the \<^verbatim>\<open>try\<close> block, lines 155 to 213.\<close>

definition uploadDataTry ::
  "codec \<Rightarrow> int \<Rightarrow> string \<Rightarrow> int \<Rightarrow> app \<Rightarrow> world \<Rightarrow> (exn + app) \<times> world" where
  "uploadDataTry J now1 rnd now2 st w =
     (case btoaStringify J (newDataJson (newData st)) of
        None \<Rightarrow> (Inl InvalidCharacterError, w)
      | Some b64 \<Rightarrow>
          (case getContractWithSigner w of
             (Inl e, w1) \<Rightarrow> (Inl e, w1)
           | (Inr contract, w1) \<Rightarrow>
               if \<not> contract then (Inl (Error ''Failed to get contract with signer''), w1)
               else
                 (case setData (''massspec_'' @ newDataId now1 rnd)
                         (stringify J
                            (newRecord (''FHE-MS-'' @ b64) now2 (account st)
                               (formSampleType (newData st)))) w1 of
                    (Inl e, w2) \<Rightarrow> (Inl e, w2)
                  | (Inr u, w2) \<Rightarrow>
                      (case getData ''massspec_keys'' w2 of
                         (Inl e, w3) \<Rightarrow> (Inl e, w3)
                       | (Inr keysBytes, w3) \<Rightarrow>
                           (case push (readKeys J keysBytes) (JStr (newDataId now1 rnd)) of
                              Inl e \<Rightarrow> (Inl e, w3)
                            | Inr keys \<Rightarrow>
                                (case setData ''massspec_keys'' (stringify J keys) w3 of
                                   (Inl e, w4) \<Rightarrow> (Inl e, w4)
                                 | (Inr u', w4) \<Rightarrow>
                                     (case loadDataList J
                                             (st\<lparr>uploading := True,
                                                 transactionStatus := uploadSuccess\<rparr>) w4 of
                                        (st', w5) \<Rightarrow> (Inr st', w5))))))))"

definition uploadData :: "codec \<Rightarrow> int \<Rightarrow> string \<Rightarrow> int \<Rightarrow> app \<Rightarrow> world \<Rightarrow> app \<times> world" where
  "uploadData J now1 rnd now2 st w =
     (if \<not> provider st then (st, w)
      else
        (case uploadDataTry J now1 rnd now2 st w of
           (Inr st', w') \<Rightarrow> (st'\<lparr>uploading := False\<rparr>, w')
         | (Inl e, w') \<Rightarrow>
             (st\<lparr>uploading := False,
                 transactionStatus :=
                   \<lparr> visible = True, outcome = Failed, message = UploadFailed e \<rparr>\<rparr>, w')))"

subsection \<open>analyzeData\<close>

definition fheResultText :: string where
  "fheResultText = ''FHE-Molecular-Profile: C6H12O6 (Glucose) @ 95% confidence''"

text \<open>Lines 264 to 268: a property that exists keeps its place, a new one goes last.\<close>

definition updatedData :: "json \<Rightarrow> json" where
  "updatedData data =
     JObj (AList.update ''fheResult'' (JStr fheResultText)
            (AList.update ''status'' (JStr ''analyzed'') (spread data)))"

definition analyzeSuccess :: transaction_status where
  "analyzeSuccess =
     \<lparr> visible = True, outcome = Success,
       message = Text ''FHE molecular analysis completed successfully!'' \<rparr>"

text \<open>The body of the \<^verbatim>\<open>try\<close> block, lines 246 to 285.\<close>

definition analyzeDataTry :: "codec \<Rightarrow> string \<Rightarrow> app \<Rightarrow> world \<Rightarrow> (exn + app) \<times> world" where
  "analyzeDataTry J dataId st w =
     (case getContractWithSigner w of
        (Inl e, w1) \<Rightarrow> (Inl e, w1)
      | (Inr contract, w1) \<Rightarrow>
          if \<not> contract then (Inl (Error ''Failed to get contract with signer''), w1)
          else
            (case getData (''massspec_'' @ dataId) w1 of
               (Inl e, w2) \<Rightarrow> (Inl e, w2)
             | (Inr dataBytes, w2) \<Rightarrow>
                 if length dataBytes = 0 then (Inl (Error ''Data not found''), w2)
                 else
                   (case parse J dataBytes of
                      None \<Rightarrow> (Inl SyntaxError, w2)
                    | Some data \<Rightarrow>
                        (case setData (''massspec_'' @ dataId)
                                (stringify J (updatedData data)) w2 of
                           (Inl e, w3) \<Rightarrow> (Inl e, w3)
                         | (Inr u, w3) \<Rightarrow>
                             (case loadDataList J (st\<lparr>transactionStatus := analyzeSuccess\<rparr>) w3 of
                                (st', w4) \<Rightarrow> (Inr st', w4))))))"

definition analyzeData :: "codec \<Rightarrow> string \<Rightarrow> app \<Rightarrow> world \<Rightarrow> app \<times> world" where
  "analyzeData J dataId st w =
     (if \<not> provider st then (st, w)
      else
        (case analyzeDataTry J dataId st w of
           (Inr st', w') \<Rightarrow> (st', w')
         | (Inl e, w') \<Rightarrow>
             (st\<lparr>transactionStatus :=
                   \<lparr> visible = True, outcome = Failed, message = AnalysisFailed e \<rparr>\<rparr>, w')))"

subsection \<open>The owner check and the Analyze button\<close>

text \<open>Lines 299 to 301; \<open>acc\<close> is the connected account.\<close>

definition isOwner :: "string \<Rightarrow> string \<Rightarrow> bool" where
  "isOwner acc address = (toLowerCase acc = toLowerCase address)"

text \<open>
  Line 509, the condition under which a row of the table shows the Analyze button. The
  source calls \<^verbatim>\<open>isOwner(data.owner)\<close> first, which throws when the owner is not a string.
\<close>

definition showsAnalyze :: "app \<Rightarrow> MassSpecData \<Rightarrow> exn + bool" where
  "showsAnalyze st d =
     (case owner d of
        Some (JStr address) \<Rightarrow> Inr (isOwner (account st) address \<and> status d = JStr ''pending'')
      | _ \<Rightarrow> Inl TypeError)"

text \<open>
  Lines 509 to 516: the button is the only caller of \<^verbatim>\<open>analyzeData\<close>, with the row's
  \<^verbatim>\<open>id\<close>. A row without the button offers nothing to click.
\<close>

definition clickAnalyze :: "codec \<Rightarrow> MassSpecData \<Rightarrow> app \<Rightarrow> world \<Rightarrow> app \<times> world" where
  "clickAnalyze J d st w =
     (if showsAnalyze st d = Inr True then analyzeData J (toString (ident d)) st w
      else (st, w))"

subsection \<open>Statistics and the bar chart\<close>

text \<open>Lines 41 to 43.\<close>

definition analyzedCount :: "MassSpecData list \<Rightarrow> nat" where
  "analyzedCount list = length (filter (\<lambda>d. status d = JStr ''analyzed'') list)"

definition pendingCount :: "MassSpecData list \<Rightarrow> nat" where
  "pendingCount list = length (filter (\<lambda>d. status d = JStr ''pending'') list)"

definition errorCount :: "MassSpecData list \<Rightarrow> nat" where
  "errorCount list = length (filter (\<lambda>d. status d = JStr ''error'') list)"

text \<open>
  Lines 310, 319 and 328: \<^verbatim>\<open>(count / (dataList.length || 1)) * 100\<close>, the height of a bar
  in percent, here as an exact fraction.
\<close>

definition barDivisor :: "MassSpecData list \<Rightarrow> nat" where
  "barDivisor list = (if length list = 0 then 1 else length list)"

definition barHeight :: "nat \<Rightarrow> MassSpecData list \<Rightarrow> rat" where
  "barHeight c list = of_nat c / of_nat (barDivisor list) * 100"

section \<open>A JSON text codec for concrete ledgers\<close>

text \<open>
  The theorems below hold for every codec. To run the model on a concrete ledger,
  \<open>asciiJson\<close> implements the three library functions on a fragment of JSON: ASCII text,
  integer numbers, no \<^verbatim>\<open>\u\<close> escapes on input and no keys that look like array indices.
  \<open>jsonText\<close> prints the compact text of \<^verbatim>\<open>JSON.stringify\<close>, \<open>jsonParse\<close> reads JSON text
  with optional white space (a repeated key keeps its first place and its last value, as
  \<^verbatim>\<open>JSON.parse\<close> does), \<open>base64\<close> is the encoding of \<^verbatim>\<open>btoa\<close>. Text outside the
  fragment is answered with \<open>None\<close>; no general theorem depends on this codec.
\<close>

definition quoteChar :: "char \<Rightarrow> string" where
  "quoteChar c =
     (if c = CHR 0x22 then [CHR 0x5C, CHR 0x22]
      else if c = CHR 0x5C then [CHR 0x5C, CHR 0x5C]
      else if c = CHR 0x08 then [CHR 0x5C, CHR ''b'']
      else if c = CHR 0x09 then [CHR 0x5C, CHR ''t'']
      else if c = CHR 0x0A then [CHR 0x5C, CHR ''n'']
      else if c = CHR 0x0C then [CHR 0x5C, CHR ''f'']
      else if c = CHR 0x0D then [CHR 0x5C, CHR ''r'']
      else if (of_char c :: nat) < 32
        then [CHR 0x5C, CHR ''u'', CHR ''0'', CHR ''0'',
              ''0123456789abcdef'' ! ((of_char c :: nat) div 16),
              ''0123456789abcdef'' ! ((of_char c :: nat) mod 16)]
      else [c])"

definition quoteText :: "string \<Rightarrow> string" where
  "quoteText s = CHR 0x22 # concat (map quoteChar s) @ [CHR 0x22]"

fun jsonText :: "json \<Rightarrow> string" where
  "jsonText JNull = ''null''"
| "jsonText (JBool b) = (if b then ''true'' else ''false'')"
| "jsonText (JNum n) = showInt n"
| "jsonText (JStr s) = quoteText s"
| "jsonText (JArr xs) = ''['' @ joinComma (map jsonText xs) @ '']''"
| "jsonText (JObj kvs) =
     ''{'' @ joinComma (map (\<lambda>(k, v). quoteText k @ '':'' @ jsonText v) kvs) @ ''}''"

definition isWs :: "char \<Rightarrow> bool" where
  "isWs c = (c = CHR '' '' \<or> c = CHR 0x09 \<or> c = CHR 0x0A \<or> c = CHR 0x0D)"

definition skipWs :: "string \<Rightarrow> string" where
  "skipWs s = dropWhile isWs s"

definition isDigit :: "char \<Rightarrow> bool" where
  "isDigit c = (48 \<le> (of_char c :: nat) \<and> (of_char c :: nat) \<le> 57)"

definition readDigits :: "string \<Rightarrow> int" where
  "readDigits ds = foldl (\<lambda>a c. 10 * a + ((of_char c :: int) - 48)) 0 ds"

definition unescape :: "char \<Rightarrow> char option" where
  "unescape e =
     (if e = CHR 0x22 \<or> e = CHR 0x5C \<or> e = CHR ''/'' then Some e
      else if e = CHR ''b'' then Some (CHR 0x08)
      else if e = CHR ''t'' then Some (CHR 0x09)
      else if e = CHR ''n'' then Some (CHR 0x0A)
      else if e = CHR ''f'' then Some (CHR 0x0C)
      else if e = CHR ''r'' then Some (CHR 0x0D)
      else None)"

fun parseChars :: "string \<Rightarrow> (string \<times> string) option" where
  "parseChars [] = None"
| "parseChars [c] = (if c = CHR 0x22 then Some ([], []) else None)"
| "parseChars (c # e # cs) =
     (if c = CHR 0x22 then Some ([], e # cs)
      else if c = CHR 0x5C then
        (case unescape e of
           None \<Rightarrow> None
         | Some x \<Rightarrow>
             (case parseChars cs of None \<Rightarrow> None | Some (s, r) \<Rightarrow> Some (x # s, r)))
      else if (of_char c :: nat) < 32 then None
      else (case parseChars (e # cs) of None \<Rightarrow> None | Some (s, r) \<Rightarrow> Some (c # s, r)))"

definition parseNumber :: "string \<Rightarrow> (json \<times> string) option" where
  "parseNumber s =
     (let neg = (take 1 s = ''-'');
          t = (if neg then drop 1 s else s);
          ds = takeWhile isDigit t;
          r = dropWhile isDigit t
      in if ds = [] \<or> (length ds > 1 \<and> take 1 ds = ''0'')
            \<or> take 1 r = ''.'' \<or> take 1 r = ''e'' \<or> take 1 r = ''E''
         then None
         else Some (JNum (if neg then - readDigits ds else readDigits ds), r))"

fun parseValue :: "nat \<Rightarrow> string \<Rightarrow> (json \<times> string) option"
  and parseElements :: "nat \<Rightarrow> string \<Rightarrow> (json list \<times> string) option"
  and parseMembers :: "nat \<Rightarrow> string \<Rightarrow> ((string \<times> json) list \<times> string) option" where
  "parseValue 0 s = None"
| "parseValue (Suc n) s =
     (let t = skipWs s in
      if take 4 t = ''null'' then Some (JNull, drop 4 t)
      else if take 4 t = ''true'' then Some (JBool True, drop 4 t)
      else if take 5 t = ''false'' then Some (JBool False, drop 5 t)
      else if take 1 t = [CHR 0x22] then
        (case parseChars (drop 1 t) of None \<Rightarrow> None | Some (x, r) \<Rightarrow> Some (JStr x, r))
      else if take 1 t = ''['' then
        (if take 1 (skipWs (drop 1 t)) = '']'' then Some (JArr [], drop 1 (skipWs (drop 1 t)))
         else (case parseElements n (drop 1 t) of
                 None \<Rightarrow> None | Some (xs, r) \<Rightarrow> Some (JArr xs, r)))
      else if take 1 t = ''{'' then
        (if take 1 (skipWs (drop 1 t)) = ''}'' then Some (JObj [], drop 1 (skipWs (drop 1 t)))
         else (case parseMembers n (drop 1 t) of
                 None \<Rightarrow> None
               | Some (kvs, r) \<Rightarrow>
                   Some (JObj (foldl (\<lambda>acc (k, v). AList.update k v acc) [] kvs), r)))
      else parseNumber t)"
| "parseElements 0 s = None"
| "parseElements (Suc n) s =
     (case parseValue n s of
        None \<Rightarrow> None
      | Some (v, r) \<Rightarrow>
          (let t = skipWs r in
           if take 1 t = '','' then
             (case parseElements n (drop 1 t) of
                None \<Rightarrow> None | Some (vs, r') \<Rightarrow> Some (v # vs, r'))
           else if take 1 t = '']'' then Some ([v], drop 1 t)
           else None))"
| "parseMembers 0 s = None"
| "parseMembers (Suc n) s =
     (let t = skipWs s in
      if take 1 t = [CHR 0x22] then
        (case parseChars (drop 1 t) of
           None \<Rightarrow> None
         | Some (k, r) \<Rightarrow>
             (let u = skipWs r in
              if take 1 u = '':'' then
                (case parseValue n (drop 1 u) of
                   None \<Rightarrow> None
                 | Some (v, r') \<Rightarrow>
                     (let t' = skipWs r' in
                      if take 1 t' = '','' then
                        (case parseMembers n (drop 1 t') of
                           None \<Rightarrow> None | Some (kvs, r'') \<Rightarrow> Some ((k, v) # kvs, r''))
                      else if take 1 t' = ''}'' then Some ([(k, v)], drop 1 t')
                      else None))
              else None))
      else None)"

definition jsonParse :: "string \<Rightarrow> json option" where
  "jsonParse s =
     (case parseValue (Suc (length s)) s of
        None \<Rightarrow> None
      | Some (v, r) \<Rightarrow> if skipWs r = [] then Some v else None)"

definition base64Alphabet :: string where
  "base64Alphabet = ''ABCDEFGHIJKLMNOPQRSTUVWXYZabcdefghijklmnopqrstuvwxyz0123456789+/''"

fun base64 :: "string \<Rightarrow> string" where
  "base64 [] = []"
| "base64 [a] =
     (let n = (of_char a :: nat) in
      [base64Alphabet ! (n div 4), base64Alphabet ! (n mod 4 * 16), CHR ''='', CHR ''=''])"
| "base64 [a, b] =
     (let n = (of_char a :: nat); m = (of_char b :: nat) in
      [base64Alphabet ! (n div 4), base64Alphabet ! (n mod 4 * 16 + m div 16),
       base64Alphabet ! (m mod 16 * 4), CHR ''=''])"
| "base64 (a # b # c # r) =
     (let n = (of_char a :: nat); m = (of_char b :: nat); k = (of_char c :: nat) in
      [base64Alphabet ! (n div 4), base64Alphabet ! (n mod 4 * 16 + m div 16),
       base64Alphabet ! (m mod 16 * 4 + k div 64), base64Alphabet ! (k mod 64)] @ base64 r)"

definition asciiJson :: codec where
  "asciiJson =
     \<lparr> parse = jsonParse,
       stringify = jsonText,
       btoaStringify =
         (\<lambda>v. if list_all (\<lambda>c. (of_char c :: nat) < 128) (jsonText v)
               then Some (base64 (jsonText v)) else None) \<rparr>"

section \<open>Notions used in the statements\<close>

text \<open>\<open>allOk w\<close>: no call still to come fails in transport.\<close>

definition allOk :: "world \<Rightarrow> bool" where
  "allOk w = list_all (\<lambda>r. r = Ok) (replies w)"

text \<open>
  \<open>quiet w w'\<close>: between \<open>w\<close> and \<open>w'\<close> calls were answered and nothing was written.
\<close>

definition quiet :: "world \<Rightarrow> world \<Rightarrow> bool" where
  "quiet w w' \<longleftrightarrow>
     store w' = store w \<and> sets w' = sets w \<and> readOnly w' = readOnly w \<and>
     signer w' = signer w \<and> available w' = available w \<and>
     (\<exists>n. replies w' = drop n (replies w))"

text \<open>
  The records that the bytes stored for a list of keys decode to, in the order of the
  keys: the loop of lines 107 to 129 when every \<^verbatim>\<open>getData\<close> succeeds.
\<close>

definition decodeAll :: "codec \<Rightarrow> (string \<Rightarrow> string) \<Rightarrow> json list \<Rightarrow> MassSpecData list" where
  "decodeAll J s keys =
     List.map_filter (\<lambda>key. decodeBytes J key (s (''massspec_'' @ toString key))) keys"

definition isStr :: "json option \<Rightarrow> bool" where
  "isStr v = (case v of Some (JStr s) \<Rightarrow> True | _ \<Rightarrow> False)"

definition isNum :: "json option \<Rightarrow> bool" where
  "isNum v = (case v of Some (JNum n) \<Rightarrow> True | _ \<Rightarrow> False)"


text \<open>
  The object stored for a record. The source has no encoder of its own: the object is
  written out in \<^verbatim>\<open>uploadData\<close> (lines 165 to 171) and extended in \<^verbatim>\<open>analyzeData\<close> (lines
  264 to 268). \<open>storedForm\<close> is that layout for any record, a field that is
  \<^verbatim>\<open>undefined\<close> being left out as \<^verbatim>\<open>JSON.stringify\<close> leaves it out; the lemmas
  \<open>newRecord_storedForm\<close> and \<open>updatedData_storedForm\<close> tie it to the two writers.
\<close>

definition optField :: "string \<Rightarrow> json option \<Rightarrow> (string \<times> json) list" where
  "optField f v = (case v of None \<Rightarrow> [] | Some x \<Rightarrow> [(f, x)])"

definition storedForm :: "MassSpecData \<Rightarrow> json" where
  "storedForm r =
     JObj (optField ''data'' (encryptedData r) @ optField ''timestamp'' (timestamp r) @
           optField ''owner'' (owner r) @ optField ''sampleType'' (sampleType r) @
           [(''status'', status r)] @ optField ''fheResult'' (fheResult r))"

text \<open>A ledger holding the given bytes, reachable and without failures to come.\<close>

definition ledgerOf :: "(string \<times> string) list \<Rightarrow> world" where
  "ledgerOf kvs =
     \<lparr> store = (\<lambda>k. case map_of kvs k of None \<Rightarrow> [] | Some b \<Rightarrow> b),
       sets = [], readOnly = True, signer = True, available = True, replies = [] \<rparr>"

text \<open>A session with a connected wallet, the given account and a filled form.\<close>

definition session :: "string \<Rightarrow> app" where
  "session acc =
     \<lparr> account = acc, provider = True, dataList = [], isRefreshing = False,
       loading = True, uploading = False,
       transactionStatus = \<lparr> visible = False, outcome = Pending, message = Text [] \<rparr>,
       newData = \<lparr> formSampleType = ''Protein'', description = ''d'',
                   massSpecData = ''1,2,3'' \<rparr> \<rparr>"

section \<open>Concrete ledgers\<close>


definition noStatus :: world where
  \<open>noStatus = ledgerOf
     [(''massspec_keys'', ''["a","b"]''),
      (''massspec_a'', ''{"data":"FHE-MS-eA==","timestamp":100,"owner":"0xA1","sampleType":"Protein"}''),
      (''massspec_b'', ''{"data":"FHE-MS-eQ==","timestamp":200,"owner":"0xA1","sampleType":"Lipid","status":""}'')]\<close>


definition oneRecord :: world where
  \<open>oneRecord = ledgerOf
     [(''massspec_keys'', ''["a"]''),
      (''massspec_a'', ''{"data":"FHE-MS-eA==","timestamp":100,"owner":"0xA1","sampleType":"Protein","status":"pending"}'')]\<close>

definition errored :: world where
  \<open>errored = ledgerOf
     [(''massspec_keys'', ''["a"]''),
      (''massspec_a'', ''{"data":"FHE-MS-eA==","timestamp":100,"owner":"0xA1","sampleType":"Protein","status":"error"}'')]\<close>

definition truncated :: world where
  \<open>truncated = ledgerOf
     [(''massspec_keys'', ''["a"]''),
      (''massspec_a'', ''{"data":"FHE-MS-'')]\<close>

definition timeouts :: world where
  "timeouts = oneRecord\<lparr>replies := [Ok, Fail ''timeout'']\<rparr>"

definition analyzedText :: string where
  \<open>analyzedText = ''{"data":"FHE-MS-eA==","timestamp":100,"owner":"0xA1","sampleType":"Protein","status":"analyzed","fheResult":"FHE-Molecular-Profile: C6H12O6 (Glucose) @ 95% confidence"}''\<close>

definition recordA :: "string \<Rightarrow> MassSpecData" where
  "recordA s =
     \<lparr> ident = JStr ''a'', encryptedData = Some (JStr ''FHE-MS-eA==''),
       timestamp = Some (JNum 100), owner = Some (JStr ''0xA1''),
       sampleType = Some (JStr ''Protein''), status = JStr s, fheResult = None \<rparr>"

lemmas codec_eval =
  asciiJson_def jsonParse_def skipWs_def isWs_def parseNumber_def isDigit_def readDigits_def
  unescape_def Let_def quoteText_def quoteChar_def showInt_def showNat.simps digitChar_def

lemmas model_eval =
  readKeys_def decodeBytes_def toMassSpecData_def orElse_def decodeAll_def
  List.map_filter_simps ledgerOf_def session_def allOk_def isNum_def isStr_def
  sortByTimestamp_def timestampNum_def

section \<open>The ledger calls\<close>

text \<open>Calls other than an acknowledged \<^verbatim>\<open>setData\<close> leave the ledger as it is, and succeed when no failure is to come.\<close>

lemma quiet_refl: "quiet w w"
  unfolding quiet_def by (metis drop0)

lemma quiet_trans: "quiet w w' \<Longrightarrow> quiet w' w'' \<Longrightarrow> quiet w w''"
  unfolding quiet_def by (metis drop_drop)

lemma allOk_drop: "allOk w \<Longrightarrow> replies w' = drop n (replies w) \<Longrightarrow> allOk w'"
  unfolding allOk_def list_all_iff by (auto dest: in_set_dropD)

lemma quiet_allOk: "quiet w w' \<Longrightarrow> allOk w \<Longrightarrow> allOk w'"
  unfolding quiet_def by (auto intro: allOk_drop)

lemma nextReply_quiet: "nextReply w = (r, w') \<Longrightarrow> quiet w w'"
  unfolding nextReply_def quiet_def
  by (auto split: list.splits intro: exI [of _ 0] exI [of _ 1] simp: drop_Suc)

lemma nextReply_allOk: "allOk w \<Longrightarrow> fst (nextReply w) = Ok"
  unfolding nextReply_def allOk_def by (auto split: list.splits)

lemma getContractReadOnly_quiet: "getContractReadOnly w = (r, w') \<Longrightarrow> quiet w w'"
  unfolding getContractReadOnly_def
  by (auto split: prod.splits reply.splits dest: nextReply_quiet)

lemma getContractWithSigner_quiet: "getContractWithSigner w = (r, w') \<Longrightarrow> quiet w w'"
  unfolding getContractWithSigner_def
  by (auto split: prod.splits reply.splits dest: nextReply_quiet)

lemma isAvailable_quiet: "isAvailable w = (r, w') \<Longrightarrow> quiet w w'"
  unfolding isAvailable_def
  by (auto split: prod.splits reply.splits dest: nextReply_quiet)

lemma getData_quiet: "getData k w = (r, w') \<Longrightarrow> quiet w w'"
  unfolding getData_def
  by (auto split: prod.splits reply.splits dest: nextReply_quiet)

lemma setData_Inl_quiet: "setData k v w = (Inl e, w') \<Longrightarrow> quiet w w'"
  unfolding setData_def
  by (auto split: prod.splits reply.splits dest: nextReply_quiet)

lemma setData_Inr:
  "setData k v w = (Inr u, w') \<Longrightarrow>
     \<exists>w1. quiet w w1 \<and> w' = w1\<lparr>store := (store w1)(k := v), sets := sets w1 @ [(k, v)]\<rparr>"
  unfolding setData_def
  by (auto split: prod.splits reply.splits dest: nextReply_quiet)

lemma nextReply_ok:
  "allOk w \<Longrightarrow> \<exists>w'. nextReply w = (Ok, w') \<and> quiet w w'"
proof -
  assume ok: "allOk w"
  obtain r w' where n: "nextReply w = (r, w')" by (cases "nextReply w")
  have "r = Ok" using nextReply_allOk [OF ok] n by simp
  moreover have "quiet w w'" using n by (rule nextReply_quiet)
  ultimately show ?thesis using n by simp
qed

lemma getContractReadOnly_ok: "allOk w \<Longrightarrow> fst (getContractReadOnly w) = Inr (readOnly w)"
  using nextReply_ok [of w] by (auto simp: getContractReadOnly_def quiet_def)

lemma getContractWithSigner_ok: "allOk w \<Longrightarrow> fst (getContractWithSigner w) = Inr (signer w)"
  using nextReply_ok [of w] by (auto simp: getContractWithSigner_def quiet_def)

lemma isAvailable_ok: "allOk w \<Longrightarrow> fst (isAvailable w) = Inr (available w)"
  using nextReply_ok [of w] by (auto simp: isAvailable_def quiet_def)

lemma getData_ok: "allOk w \<Longrightarrow> fst (getData k w) = Inr (store w k)"
  using nextReply_ok [of w] by (auto simp: getData_def quiet_def)

lemma setData_ok: "allOk w \<Longrightarrow> fst (setData k v w) = Inr ()"
  using nextReply_ok [of w] by (auto simp: setData_def)

lemma loadOne_quiet: "loadOne J key w = (r, w') \<Longrightarrow> quiet w w'"
  unfolding loadOne_def
  by (auto split: prod.splits sum.splits dest: getData_quiet)

lemma loadOne_ok:
  "allOk w \<Longrightarrow> fst (loadOne J key w) = decodeBytes J key (store w (''massspec_'' @ toString key))"
  using getData_ok [of w "''massspec_'' @ toString key"]
  unfolding loadOne_def
  by (auto split: prod.splits sum.splits)

lemma loadRecords_quiet: "loadRecords J keys acc w = (r, w') \<Longrightarrow> quiet w w'"
proof (induction keys arbitrary: acc w)
  case Nil
  then show ?case by (simp add: quiet_refl)
next
  case (Cons key keys)
  obtain o1 w1 where l: "loadOne J key w = (o1, w1)" by (cases "loadOne J key w")
  from Cons.prems l have "\<exists>acc'. loadRecords J keys acc' w1 = (r, w')"
    by (auto split: option.splits)
  then have "quiet w1 w'" using Cons.IH by blast
  with loadOne_quiet [OF l] show ?case by (rule quiet_trans)
qed

lemma loadRecords_ok:
  "allOk w \<Longrightarrow> fst (loadRecords J keys acc w) = acc @ decodeAll J (store w) keys"
proof (induction keys arbitrary: acc w)
  case Nil
  then show ?case by (simp add: decodeAll_def List.map_filter_simps)
next
  case (Cons key keys)
  obtain o1 w1 where l: "loadOne J key w = (o1, w1)" by (cases "loadOne J key w")
  have q: "quiet w w1" using l by (rule loadOne_quiet)
  have ok1: "allOk w1" using q Cons.prems by (rule quiet_allOk)
  have s1: "store w1 = store w" using q by (simp add: quiet_def)
  have o1: "o1 = decodeBytes J key (store w (''massspec_'' @ toString key))"
    using loadOne_ok [OF Cons.prems, of J key] l by simp
  show ?case
    using Cons.IH [OF ok1] l o1 s1
    by (simp add: decodeAll_def List.map_filter_simps split: option.splits)
qed


lemma loadDataListTry_quiet: "loadDataListTry J w = (r, w') \<Longrightarrow> quiet w w'"
  unfolding loadDataListTry_def
  by (auto split: prod.splits sum.splits if_splits
      dest!: getContractReadOnly_quiet isAvailable_quiet getData_quiet loadRecords_quiet
      intro: quiet_trans)

lemma loadDataList_quiet: "quiet w (snd (loadDataList J st w))"
  unfolding loadDataList_def
  by (auto split: prod.splits sum.splits option.splits dest: loadDataListTry_quiet)

lemma loadDataList_state:
  "\<exists>l. fst (loadDataList J st w) = st\<lparr>dataList := l, isRefreshing := False, loading := False\<rparr>"
  unfolding loadDataList_def
  by (auto split: prod.splits sum.splits option.splits intro: exI [of _ "dataList st"])

lemma loadDataListTry_ok:
  assumes "allOk w" "readOnly w" "available w"
    and "forOf (readKeys J (store w ''massspec_keys'')) = Inr keys"
  shows "fst (loadDataListTry J w) = Inr (Some (sortByTimestamp (decodeAll J (store w) keys)))"
proof -
  obtain r1 w1 where c1: "getContractReadOnly w = (r1, w1)" by (cases "getContractReadOnly w")
  have q1: "quiet w w1" using c1 by (rule getContractReadOnly_quiet)
  have r1: "r1 = Inr True" using getContractReadOnly_ok [OF assms(1)] c1 assms(2) by simp
  have ok1: "allOk w1" using q1 assms(1) by (rule quiet_allOk)
  obtain r2 w2 where c2: "isAvailable w1 = (r2, w2)" by (cases "isAvailable w1")
  have q2: "quiet w1 w2" using c2 by (rule isAvailable_quiet)
  have r2: "r2 = Inr True"
    using isAvailable_ok [OF ok1] c2 assms(3) q1 by (simp add: quiet_def)
  have ok2: "allOk w2" using q2 ok1 by (rule quiet_allOk)
  obtain r3 w3 where c3: "getData ''massspec_keys'' w2 = (r3, w3)"
    by (cases "getData ''massspec_keys'' w2")
  have q3: "quiet w2 w3" using c3 by (rule getData_quiet)
  have st3: "store w3 = store w" "store w2 = store w"
    using q1 q2 q3 by (simp_all add: quiet_def)
  have r3: "r3 = Inr (store w ''massspec_keys'')"
    using getData_ok [OF ok2, of "''massspec_keys''"] c3 st3 by simp
  have ok3: "allOk w3" using q3 ok2 by (rule quiet_allOk)
  obtain l w4 where c4: "loadRecords J keys [] w3 = (l, w4)" by (cases "loadRecords J keys [] w3")
  have l: "l = decodeAll J (store w) keys"
    using loadRecords_ok [OF ok3, of J keys "[]"] c4 st3 by simp
  show ?thesis
    unfolding loadDataListTry_def using c1 r1 c2 r2 c3 r3 c4 l assms(4) by simp
qed

lemma loadDataList_ok:
  assumes "allOk w" "readOnly w" "available w"
    and "forOf (readKeys J (store w ''massspec_keys'')) = Inr keys"
  shows "dataList (fst (loadDataList J st w)) = sortByTimestamp (decodeAll J (store w) keys)"
  using loadDataListTry_ok [OF assms]
  unfolding loadDataList_def
  by (auto split: prod.splits sum.splits option.splits)

lemma set_decodeAll:
  "set (decodeAll J s keys) =
     {d. \<exists>key \<in> set keys. decodeBytes J key (s (''massspec_'' @ toString key)) = Some d}"
  by (induction keys) (auto simp: decodeAll_def split: option.splits)

lemma set_loadDataList:
  assumes "allOk w" "readOnly w" "available w"
    and "readKeys J (store w ''massspec_keys'') = JArr keys"
  shows "set (dataList (fst (loadDataList J st w))) =
     {d. \<exists>key \<in> set keys. decodeBytes J key (store w (''massspec_'' @ toString key)) = Some d}"
proof -
  have "forOf (readKeys J (store w ''massspec_keys'')) = Inr keys"
    using assms(4) by simp
  from loadDataList_ok [OF assms(1,2,3) this, of st] show ?thesis
    by (simp add: sortByTimestamp_def set_decodeAll)
qed

section \<open>The stored form and the two writers\<close>

lemma newRecord_storedForm:
  "newRecord encrypted now acc sample =
     storedForm \<lparr> ident = key, encryptedData = Some (JStr encrypted),
                  timestamp = Some (JNum (now div 1000)), owner = Some (JStr acc),
                  sampleType = Some (JStr sample), status = JStr ''pending'',
                  fheResult = None \<rparr>"
  by (simp add: newRecord_def storedForm_def optField_def)

lemma updatedData_storedForm:
  "updatedData (storedForm r) =
     storedForm (r\<lparr>status := JStr ''analyzed'', fheResult := Some (JStr fheResultText)\<rparr>)"
  by (simp add: updatedData_def storedForm_def optField_def split: option.splits)

lemma getProp_storedForm:
  "getProp (storedForm r) ''data'' = encryptedData r"
  "getProp (storedForm r) ''timestamp'' = timestamp r"
  "getProp (storedForm r) ''owner'' = owner r"
  "getProp (storedForm r) ''sampleType'' = sampleType r"
  "getProp (storedForm r) ''status'' = Some (status r)"
  "getProp (storedForm r) ''fheResult'' = fheResult r"
  by (simp_all add: storedForm_def optField_def split: option.splits)

lemma toMassSpecData_storedForm:
  "truthy (status r) \<Longrightarrow> toMassSpecData (ident r) (storedForm r) = Inr r"
  unfolding toMassSpecData_def getProp_storedForm
  by (simp add: orElse_def storedForm_def)

section \<open>What analyzeData can do\<close>

lemma analyzeDataTry_cases:
  assumes "analyzeDataTry J dataId st w = (r, w')"
  shows "(\<exists>e. r = Inl e \<and> quiet w w') \<or>
         (\<exists>data w1 l.
            r = Inr (st\<lparr>transactionStatus := analyzeSuccess, dataList := l,
                         isRefreshing := False, loading := False\<rparr>) \<and>
            quiet w w1 \<and> store w (''massspec_'' @ dataId) \<noteq> [] \<and>
            parse J (store w (''massspec_'' @ dataId)) = Some data \<and>
            quiet (w1\<lparr>store := (store w1)(''massspec_'' @ dataId := stringify J (updatedData data)),
                      sets := sets w1 @ [(''massspec_'' @ dataId, stringify J (updatedData data))]\<rparr>) w')"
proof -
  obtain r1 w1 where c1: "getContractWithSigner w = (r1, w1)"
    by (cases "getContractWithSigner w")
  have q1: "quiet w w1" using c1 by (rule getContractWithSigner_quiet)
  obtain r2 w2 where c2: "getData (''massspec_'' @ dataId) w1 = (r2, w2)"
    by (cases "getData (''massspec_'' @ dataId) w1")
  have q2: "quiet w1 w2" using c2 by (rule getData_quiet)
  have q12: "quiet w w2" using q1 q2 by (rule quiet_trans)
  have r2: "r2 = Inr b \<Longrightarrow> b = store w (''massspec_'' @ dataId)" for b
    using c2 q1 unfolding getData_def quiet_def
    by (auto split: prod.splits reply.splits dest!: nextReply_quiet simp: quiet_def)
  show ?thesis
  proof (cases r1)
    case (Inl e)
    then show ?thesis using c1 q1 assms by (auto simp: analyzeDataTry_def)
  next
    case (Inr contract)
    note r1 = this
    show ?thesis
    proof (cases contract)
      case False
      then show ?thesis using c1 r1 q1 assms by (auto simp: analyzeDataTry_def)
    next
      case True
      note contract = this
      show ?thesis
      proof (cases r2)
        case (Inl e)
        then show ?thesis using c1 r1 contract c2 q12 assms by (auto simp: analyzeDataTry_def)
      next
        case (Inr dataBytes)
        note b = this r2 [OF this]
        show ?thesis
        proof (cases "parse J dataBytes = None \<or> dataBytes = []")
          case True
          then have "(r, w') = (Inl (Error ''Data not found''), w2) \<or> (r, w') = (Inl SyntaxError, w2)"
            using c1 r1 contract c2 b(1) assms
            by (cases "dataBytes = []") (auto simp: analyzeDataTry_def)
          then show ?thesis
            using q12 by auto
        next
          case False
          then obtain data where d: "parse J dataBytes = Some data" and ne: "dataBytes \<noteq> []"
            by auto
          let ?k = "''massspec_'' @ dataId"
          let ?v = "stringify J (updatedData data)"
          obtain r3 w3 where c3: "setData ?k ?v w2 = (r3, w3)" by (cases "setData ?k ?v w2")
          show ?thesis
          proof (cases r3)
            case (Inl e)
            have "quiet w2 w3" using c3 Inl setData_Inl_quiet by blast
            with q12 have "quiet w w3" by (rule quiet_trans)
            then show ?thesis
              using c1 r1 contract c2 b(1) d ne c3 Inl assms by (auto simp: analyzeDataTry_def)
          next
            case (Inr u)
            from setData_Inr [of ?k ?v w2 u w3] c3 Inr obtain wa where
              wa: "quiet w2 wa" "w3 = wa\<lparr>store := (store wa)(?k := ?v), sets := sets wa @ [(?k, ?v)]\<rparr>"
              by blast
            have qa: "quiet w wa" using q12 wa(1) by (rule quiet_trans)
            obtain st' w4 where c4:
              "loadDataList J (st\<lparr>transactionStatus := analyzeSuccess\<rparr>) w3 = (st', w4)"
              by (cases "loadDataList J (st\<lparr>transactionStatus := analyzeSuccess\<rparr>) w3")
            have q4: "quiet w3 w4"
              using loadDataList_quiet [of w3 J "st\<lparr>transactionStatus := analyzeSuccess\<rparr>"] c4 by simp
            obtain l where l: "st' = st\<lparr>transactionStatus := analyzeSuccess, dataList := l,
                         isRefreshing := False, loading := False\<rparr>"
              using loadDataList_state [of J "st\<lparr>transactionStatus := analyzeSuccess\<rparr>" w3] c4 by auto
            have res: "r = Inr st'" "w' = w4"
              using c1 r1 contract c2 b(1) d ne c3 Inr c4 assms by (auto simp: analyzeDataTry_def)
            show ?thesis
              using res l qa ne d b(2) q4 wa(2) by blast
          qed
        qed
      qed
    qed
  qed
qed

lemma analyzeData_cases:
  assumes "analyzeData J dataId st w = (st', w')"
  shows "(st' = st \<and> w' = w \<and> \<not> provider st) \<or>
         (\<exists>e. st' = st\<lparr>transactionStatus :=
                       \<lparr> visible = True, outcome = Failed, message = AnalysisFailed e \<rparr>\<rparr> \<and>
              quiet w w') \<or>
         (\<exists>data l.
            st' = st\<lparr>transactionStatus := analyzeSuccess, dataList := l,
                      isRefreshing := False, loading := False\<rparr> \<and>
            store w (''massspec_'' @ dataId) \<noteq> [] \<and>
            parse J (store w (''massspec_'' @ dataId)) = Some data \<and>
            store w' = (store w)(''massspec_'' @ dataId := stringify J (updatedData data)) \<and>
            sets w' = sets w @ [(''massspec_'' @ dataId, stringify J (updatedData data))])"
proof (cases "provider st")
  case False
  then show ?thesis using assms by (simp add: analyzeData_def)
next
  case True
  obtain r wr where t: "analyzeDataTry J dataId st w = (r, wr)"
    by (cases "analyzeDataTry J dataId st w")
  from analyzeDataTry_cases [OF t] show ?thesis
  proof
    assume "\<exists>e. r = Inl e \<and> quiet w wr"
    then show ?thesis using True t assms by (auto simp: analyzeData_def)
  next
    assume "\<exists>data w1 l.
            r = Inr (st\<lparr>transactionStatus := analyzeSuccess, dataList := l,
                         isRefreshing := False, loading := False\<rparr>) \<and>
            quiet w w1 \<and> store w (''massspec_'' @ dataId) \<noteq> [] \<and>
            parse J (store w (''massspec_'' @ dataId)) = Some data \<and>
            quiet (w1\<lparr>store := (store w1)(''massspec_'' @ dataId := stringify J (updatedData data)),
                      sets := sets w1 @ [(''massspec_'' @ dataId, stringify J (updatedData data))]\<rparr>) wr"
    then obtain data w1 l where
      h: "r = Inr (st\<lparr>transactionStatus := analyzeSuccess, dataList := l,
                         isRefreshing := False, loading := False\<rparr>)"
         "quiet w w1" "store w (''massspec_'' @ dataId) \<noteq> []"
         "parse J (store w (''massspec_'' @ dataId)) = Some data"
         "quiet (w1\<lparr>store := (store w1)(''massspec_'' @ dataId := stringify J (updatedData data)),
                      sets := sets w1 @ [(''massspec_'' @ dataId, stringify J (updatedData data))]\<rparr>) wr"
      by blast
    have "store wr = (store w)(''massspec_'' @ dataId := stringify J (updatedData data))"
      "sets wr = sets w @ [(''massspec_'' @ dataId, stringify J (updatedData data))]"
      using h(2,5) by (simp_all add: quiet_def)
    then show ?thesis using True t h(1,3,4) assms by (auto simp: analyzeData_def)
  qed
qed

lemma analyzeData_ok:
  assumes "provider st" and "signer w" and "allOk w"
    and "store w (''massspec_'' @ dataId) \<noteq> []"
    and "parse J (store w (''massspec_'' @ dataId)) = Some data"
  shows "store (snd (analyzeData J dataId st w)) =
           (store w)(''massspec_'' @ dataId := stringify J (updatedData data))
       \<and> sets (snd (analyzeData J dataId st w)) =
           sets w @ [(''massspec_'' @ dataId, stringify J (updatedData data))]
       \<and> transactionStatus (fst (analyzeData J dataId st w)) = analyzeSuccess"
proof -
  let ?k = "''massspec_'' @ dataId"
  obtain r1 w1 where c1: "getContractWithSigner w = (r1, w1)"
    by (cases "getContractWithSigner w")
  have q1: "quiet w w1" using c1 by (rule getContractWithSigner_quiet)
  have r1: "r1 = Inr True" using getContractWithSigner_ok [OF assms(3)] c1 assms(2) by simp
  have ok1: "allOk w1" using q1 assms(3) by (rule quiet_allOk)
  obtain r2 w2 where c2: "getData ?k w1 = (r2, w2)" by (cases "getData ?k w1")
  have q2: "quiet w1 w2" using c2 by (rule getData_quiet)
  have r2: "r2 = Inr (store w ?k)"
    using getData_ok [OF ok1, of ?k] c2 q1 by (simp add: quiet_def)
  have ok2: "allOk w2" using q2 ok1 by (rule quiet_allOk)
  obtain r3 w3 where c3: "setData ?k (stringify J (updatedData data)) w2 = (r3, w3)"
    by (cases "setData ?k (stringify J (updatedData data)) w2")
  have r3: "r3 = Inr ()" using setData_ok [OF ok2, of ?k "stringify J (updatedData data)"] c3 by simp
  obtain r wr where t: "analyzeDataTry J dataId st w = (r, wr)"
    by (cases "analyzeDataTry J dataId st w")
  obtain st' w4 where c4:
    "loadDataList J (st\<lparr>transactionStatus := analyzeSuccess\<rparr>) w3 = (st', w4)"
    by (cases "loadDataList J (st\<lparr>transactionStatus := analyzeSuccess\<rparr>) w3")
  have r: "r = Inr st'"
    using c1 r1 c2 r2 c3 r3 c4 assms(4,5) t by (simp add: analyzeDataTry_def)
  have a: "analyzeData J dataId st w = (st', wr)"
    using assms(1) t r by (simp add: analyzeData_def)
  from analyzeDataTry_cases [OF t] r obtain data' wa l where
    h: "st' = st\<lparr>transactionStatus := analyzeSuccess, dataList := l,
                    isRefreshing := False, loading := False\<rparr>"
       "quiet w wa" "parse J (store w ?k) = Some data'"
       "quiet (wa\<lparr>store := (store wa)(?k := stringify J (updatedData data')),
                  sets := sets wa @ [(?k, stringify J (updatedData data'))]\<rparr>) wr"
    by auto
  have d: "data' = data" using h(3) assms(5) by simp
  have "store wr = (store w)(?k := stringify J (updatedData data))"
    "sets wr = sets w @ [(?k, stringify J (updatedData data))]"
    using h(2,4) d by (simp_all add: quiet_def)
  then show ?thesis using a h(1) by simp
qed

lemma analyzeData_not_found:
  assumes "provider st" and "signer w" and "allOk w"
    and "store w (''massspec_'' @ dataId) = []"
  shows "fst (analyzeData J dataId st w) =
     st\<lparr>transactionStatus :=
          \<lparr> visible = True, outcome = Failed,
            message = AnalysisFailed (Error ''Data not found'') \<rparr>\<rparr>"
proof -
  let ?k = "''massspec_'' @ dataId"
  obtain r1 w1 where c1: "getContractWithSigner w = (r1, w1)"
    by (cases "getContractWithSigner w")
  have q1: "quiet w w1" using c1 by (rule getContractWithSigner_quiet)
  have r1: "r1 = Inr True" using getContractWithSigner_ok [OF assms(3)] c1 assms(2) by simp
  have ok1: "allOk w1" using q1 assms(3) by (rule quiet_allOk)
  obtain r2 w2 where c2: "getData ?k w1 = (r2, w2)" by (cases "getData ?k w1")
  have r2: "r2 = Inr []"
    using getData_ok [OF ok1, of ?k] c2 q1 assms(4) by (simp add: quiet_def)
  show ?thesis
    using assms(1) c1 r1 c2 r2 by (simp add: analyzeData_def analyzeDataTry_def)
qed

lemma getProp_updatedData:
  "getProp (updatedData data) ''status'' = Some (JStr ''analyzed'')"
  "getProp (updatedData data) ''fheResult'' = Some (JStr fheResultText)"
  by (simp_all add: updatedData_def update_conv')

lemma getProp_updatedData_other:
  "f \<noteq> ''status'' \<Longrightarrow> f \<noteq> ''fheResult'' \<Longrightarrow>
     getProp (updatedData data) f = map_of (spread data) f"
  by (simp add: updatedData_def update_conv')

lemma loadDataList_account:
  "loadDataList J (st\<lparr>account := a\<rparr>) w =
     ((fst (loadDataList J st w))\<lparr>account := a\<rparr>, snd (loadDataList J st w))"
  by (simp add: loadDataList_def split: prod.splits sum.splits option.splits)

lemma analyzeData_account:
  "analyzeData J dataId (st\<lparr>account := a\<rparr>) w =
     ((fst (analyzeData J dataId st w))\<lparr>account := a\<rparr>, snd (analyzeData J dataId st w))"
proof -
  have "loadDataList J (st\<lparr>account := a, transactionStatus := analyzeSuccess\<rparr>) w' =
      ((fst (loadDataList J (st\<lparr>transactionStatus := analyzeSuccess\<rparr>) w'))\<lparr>account := a\<rparr>,
       snd (loadDataList J (st\<lparr>transactionStatus := analyzeSuccess\<rparr>) w'))" for w'
    by (simp add: loadDataList_def split: prod.splits sum.splits option.splits)
  then show ?thesis
    by (simp add: analyzeData_def analyzeDataTry_def split: prod.splits sum.splits option.splits)
qed

section \<open>Facts about the concrete ledgers\<close>

lemma oneRecord_facts:
  "provider (session acc)" "signer oneRecord" "allOk oneRecord"
  "store oneRecord (''massspec_'' @ ''a'') \<noteq> []"
  by (simp_all add: oneRecord_def ledgerOf_def session_def allOk_def)

lemma oneRecord_parse:
  "parse asciiJson (store oneRecord (''massspec_'' @ ''a'')) = Some (storedForm (recordA ''pending''))"
  by (simp add: oneRecord_def ledgerOf_def recordA_def storedForm_def optField_def codec_eval)

lemma errored_facts:
  "signer errored" "allOk errored" "store errored (''massspec_'' @ ''a'') \<noteq> []"
  by (simp_all add: errored_def ledgerOf_def allOk_def)

lemma errored_parse:
  "parse asciiJson (store errored (''massspec_'' @ ''a'')) = Some (storedForm (recordA ''error''))"
  by (simp add: errored_def ledgerOf_def recordA_def storedForm_def optField_def codec_eval)

lemma analyzedText_eq:
  "stringify asciiJson (updatedData (storedForm (recordA s))) = analyzedText"
  unfolding updatedData_storedForm
  by (simp add: analyzedText_def recordA_def storedForm_def optField_def fheResultText_def codec_eval)

section \<open>What uploadData does when every call succeeds\<close>

lemma allOk_written [simp]:
  "allOk (w\<lparr>store := s, sets := t\<rparr>) = allOk w"
  by (simp add: allOk_def)

lemma record_key_not_index [simp]:
  "newDataId now rnd \<noteq> ''keys''" "''keys'' \<noteq> newDataId now rnd"
  by (simp_all add: newDataId_def)

lemma uploadData_ok:
  assumes "provider st" and "signer w" and "allOk w"
    and "btoaStringify J (newDataJson (newData st)) = Some b64"
    and "readKeys J (store w ''massspec_keys'') = JArr ks"
    and "rec = stringify J (newRecord (''FHE-MS-'' @ b64) now2 (account st)
                 (formSampleType (newData st)))"
    and "idx = stringify J (JArr (ks @ [JStr (newDataId now1 rnd)]))"
  shows "\<exists>w4 st4.
           store w4 = (store w)(''massspec_'' @ newDataId now1 rnd := rec, ''massspec_keys'' := idx)
         \<and> sets w4 = sets w @ [(''massspec_'' @ newDataId now1 rnd, rec), (''massspec_keys'', idx)]
         \<and> readOnly w4 = readOnly w \<and> signer w4 = signer w \<and> available w4 = available w
         \<and> allOk w4
         \<and> transactionStatus st4 = uploadSuccess \<and> provider st4
         \<and> uploadData J now1 rnd now2 st w =
             ((fst (loadDataList J st4 w4))\<lparr>uploading := False\<rparr>, snd (loadDataList J st4 w4))"
proof -
  let ?k = "''massspec_'' @ newDataId now1 rnd"
  obtain r1 w1 where c1: "getContractWithSigner w = (r1, w1)"
    by (cases "getContractWithSigner w")
  have q1: "quiet w w1" using c1 by (rule getContractWithSigner_quiet)
  have r1: "r1 = Inr True" using getContractWithSigner_ok [OF assms(3)] c1 assms(2) by simp
  have ok1: "allOk w1" using q1 assms(3) by (rule quiet_allOk)
  obtain r2 w2 where c2: "setData ?k rec w1 = (r2, w2)" by (cases "setData ?k rec w1")
  have r2: "r2 = Inr ()" using setData_ok [OF ok1, of ?k rec] c2 by simp
  from setData_Inr [of ?k rec w1 "()" w2] c2 r2 obtain wa where
    wa: "quiet w1 wa" "w2 = wa\<lparr>store := (store wa)(?k := rec), sets := sets wa @ [(?k, rec)]\<rparr>"
    by blast
  have qa: "quiet w wa" using q1 wa(1) by (rule quiet_trans)
  have ok2: "allOk w2" using quiet_allOk [OF wa(1) ok1] wa(2) by simp
  obtain r3 w3 where c3: "getData ''massspec_keys'' w2 = (r3, w3)"
    by (cases "getData ''massspec_keys'' w2")
  have q3: "quiet w2 w3" using c3 by (rule getData_quiet)
  have r3: "r3 = Inr (store w ''massspec_keys'')"
    using getData_ok [OF ok2, of "''massspec_keys''"] c3 wa(2) qa by (simp add: quiet_def)
  have ok3: "allOk w3" using q3 ok2 by (rule quiet_allOk)
  have p: "push (readKeys J (store w ''massspec_keys'')) (JStr (newDataId now1 rnd)) =
      Inr (JArr (ks @ [JStr (newDataId now1 rnd)]))"
    using assms(5) by simp
  obtain r4 w4 where c4: "setData ''massspec_keys'' idx w3 = (r4, w4)"
    by (cases "setData ''massspec_keys'' idx w3")
  have r4: "r4 = Inr ()" using setData_ok [OF ok3, of "''massspec_keys''" idx] c4 by simp
  from setData_Inr [of "''massspec_keys''" idx w3 "()" w4] c4 r4 obtain wb where
    wb: "quiet w3 wb"
      "w4 = wb\<lparr>store := (store wb)(''massspec_keys'' := idx),
               sets := sets wb @ [(''massspec_keys'', idx)]\<rparr>"
    by blast
  have q2b: "quiet w2 wb" using q3 wb(1) by (rule quiet_trans)
  have ok4: "allOk w4" using quiet_allOk [OF wb(1) ok3] wb(2) by simp
  let ?st4 = "st\<lparr>uploading := True, transactionStatus := uploadSuccess\<rparr>"
  have w4: "store w4 = (store w)(?k := rec, ''massspec_keys'' := idx)"
    "sets w4 = sets w @ [(?k, rec), (''massspec_keys'', idx)]"
    "readOnly w4 = readOnly w" "signer w4 = signer w" "available w4 = available w"
    using wb(2) q2b wa(2) qa by (simp_all add: quiet_def)
  have t: "uploadDataTry J now1 rnd now2 st w =
      (Inr (fst (loadDataList J ?st4 w4)), snd (loadDataList J ?st4 w4))"
    using assms(4) c1 r1 c2 r2 c3 r3 p c4 r4 assms(6,7)
    by (simp add: uploadDataTry_def split: prod.splits)
  have u: "uploadData J now1 rnd now2 st w =
      ((fst (loadDataList J ?st4 w4))\<lparr>uploading := False\<rparr>, snd (loadDataList J ?st4 w4))"
    using assms(1) t by (simp add: uploadData_def)
  show ?thesis
    using w4 ok4 u assms(1) by (intro exI [of _ w4] exI [of _ ?st4]) simp
qed

lemma uploadData_world:
  assumes "provider st" and "signer w" and "allOk w"
    and "btoaStringify J (newDataJson (newData st)) = Some b64"
    and "readKeys J (store w ''massspec_keys'') = JArr ks"
    and "rec = stringify J (newRecord (''FHE-MS-'' @ b64) now2 (account st)
                 (formSampleType (newData st)))"
    and "idx = stringify J (JArr (ks @ [JStr (newDataId now1 rnd)]))"
  shows "store (snd (uploadData J now1 rnd now2 st w)) =
           (store w)(''massspec_'' @ newDataId now1 rnd := rec, ''massspec_keys'' := idx)"
    and "sets (snd (uploadData J now1 rnd now2 st w)) =
           sets w @ [(''massspec_'' @ newDataId now1 rnd, rec), (''massspec_keys'', idx)]"
    and "readOnly (snd (uploadData J now1 rnd now2 st w)) = readOnly w"
    and "signer (snd (uploadData J now1 rnd now2 st w)) = signer w"
    and "available (snd (uploadData J now1 rnd now2 st w)) = available w"
    and "allOk (snd (uploadData J now1 rnd now2 st w))"
    and "transactionStatus (fst (uploadData J now1 rnd now2 st w)) = uploadSuccess"
    and "provider (fst (uploadData J now1 rnd now2 st w))"
proof -
  from uploadData_ok [OF assms] obtain w4 st4 where
    h: "store w4 = (store w)(''massspec_'' @ newDataId now1 rnd := rec, ''massspec_keys'' := idx)"
       "sets w4 = sets w @ [(''massspec_'' @ newDataId now1 rnd, rec), (''massspec_keys'', idx)]"
       "readOnly w4 = readOnly w" "signer w4 = signer w" "available w4 = available w"
       "allOk w4" "transactionStatus st4 = uploadSuccess" "provider st4"
       "uploadData J now1 rnd now2 st w =
             ((fst (loadDataList J st4 w4))\<lparr>uploading := False\<rparr>, snd (loadDataList J st4 w4))"
    by blast
  have q: "quiet w4 (snd (loadDataList J st4 w4))" by (rule loadDataList_quiet)
  obtain l where l: "fst (loadDataList J st4 w4) =
      st4\<lparr>dataList := l, isRefreshing := False, loading := False\<rparr>"
    using loadDataList_state [of J st4 w4] by blast
  show "store (snd (uploadData J now1 rnd now2 st w)) =
           (store w)(''massspec_'' @ newDataId now1 rnd := rec, ''massspec_keys'' := idx)"
    using h(1,9) q by (simp add: quiet_def)
  show "sets (snd (uploadData J now1 rnd now2 st w)) =
           sets w @ [(''massspec_'' @ newDataId now1 rnd, rec), (''massspec_keys'', idx)]"
    using h(2,9) q by (simp add: quiet_def)
  show "readOnly (snd (uploadData J now1 rnd now2 st w)) = readOnly w"
    using h(3,9) q by (simp add: quiet_def)
  show "signer (snd (uploadData J now1 rnd now2 st w)) = signer w"
    using h(4,9) q by (simp add: quiet_def)
  show "available (snd (uploadData J now1 rnd now2 st w)) = available w"
    using h(5,9) q by (simp add: quiet_def)
  show "allOk (snd (uploadData J now1 rnd now2 st w))"
    using h(6,9) quiet_allOk [OF q] by simp
  show "transactionStatus (fst (uploadData J now1 rnd now2 st w)) = uploadSuccess"
    using h(7,9) l by simp
  show "provider (fst (uploadData J now1 rnd now2 st w))"
    using h(8,9) l by simp
qed

lemma uploadData_lists:
  assumes "provider st" and "signer w" and "allOk w" and "readOnly w" and "available w"
    and "btoaStringify J (newDataJson (newData st)) = Some b64"
    and "readKeys J (store w ''massspec_keys'') = JArr ks"
    and "rec = stringify J (newRecord (''FHE-MS-'' @ b64) now2 (account st)
                 (formSampleType (newData st)))"
    and "idx = stringify J (JArr (ks @ [JStr (newDataId now1 rnd)]))"
    and "readKeys J idx = JArr keys"
  shows "dataList (fst (uploadData J now1 rnd now2 st w)) =
     sortByTimestamp (decodeAll J
       ((store w)(''massspec_'' @ newDataId now1 rnd := rec, ''massspec_keys'' := idx)) keys)"
proof -
  from uploadData_ok [OF assms(1,2,3,6,7,8,9)] obtain w4 st4 where
    h: "store w4 = (store w)(''massspec_'' @ newDataId now1 rnd := rec, ''massspec_keys'' := idx)"
       "readOnly w4 = readOnly w" "available w4 = available w" "allOk w4"
       "uploadData J now1 rnd now2 st w =
             ((fst (loadDataList J st4 w4))\<lparr>uploading := False\<rparr>, snd (loadDataList J st4 w4))"
    by blast
  have f: "forOf (readKeys J (store w4 ''massspec_keys'')) = Inr keys"
    using h(1) assms(10) by simp
  have "dataList (fst (loadDataList J st4 w4)) = sortByTimestamp (decodeAll J (store w4) keys)"
    using h(4) _ _ f by (rule loadDataList_ok) (simp_all add: h(2,3) assms(4,5))
  then show ?thesis using h(1,5) by simp
qed

section \<open>Statistics\<close>

text \<open>
  Claim C9. The statistics count the records of each status, a bar is
  \<open>count / max(total, 1)\<close> (times 100, a percentage), the divisor is never zero, and for
  the empty list every count and every bar is zero.
\<close>

theorem aggregate_counts_and_bars:
  "analyzedCount list = length (filter (\<lambda>d. status d = JStr ''analyzed'') list)
   \<and> pendingCount list = length (filter (\<lambda>d. status d = JStr ''pending'') list)
   \<and> errorCount list = length (filter (\<lambda>d. status d = JStr ''error'') list)
   \<and> barDivisor list = max (length list) 1
   \<and> barDivisor list \<noteq> 0
   \<and> barHeight c list = of_nat c / of_nat (max (length list) 1) * 100
   \<and> analyzedCount [] = 0 \<and> pendingCount [] = 0 \<and> errorCount [] = 0
   \<and> barHeight (analyzedCount []) [] = 0
   \<and> barHeight (pendingCount []) [] = 0
   \<and> barHeight (errorCount []) [] = 0"
proof -
  have div: "barDivisor list = max (length list) 1"
    by (cases list) (simp_all add: barDivisor_def)
  have nz: "barDivisor list \<noteq> 0"
    by (simp add: barDivisor_def)
  show ?thesis
    using div nz
    by (simp add: analyzedCount_def pendingCount_def errorCount_def barHeight_def)
qed

section \<open>Analysis and the owner\<close>

text \<open>
  Claim C1 as stated fails: \<^verbatim>\<open>analyzeData\<close> does not look at the account. Called for a
  record of owner \<^verbatim>\<open>0xA1\<close> in a session of account \<^verbatim>\<open>0xB2\<close> it writes the analyzed record
  and reports success.
\<close>

theorem analyze_by_non_owner_writes:
  "\<not> isOwner (account (session ''0xB2'')) ''0xA1''
   \<and> decodeBytes asciiJson (JStr ''a'') (store oneRecord ''massspec_a'') = Some (recordA ''pending'')
   \<and> owner (recordA ''pending'') = Some (JStr ''0xA1'')
   \<and> sets (snd (analyzeData asciiJson ''a'' (session ''0xB2'') oneRecord)) =
        [(''massspec_a'', analyzedText)]
   \<and> outcome (transactionStatus (fst (analyzeData asciiJson ''a'' (session ''0xB2'') oneRecord))) =
        Success"
proof -
  have "\<not> isOwner (account (session ''0xB2'')) ''0xA1''"
    by (simp add: isOwner_def toLowerCase_def lowerChar_def session_def)
  moreover have "decodeBytes asciiJson (JStr ''a'') (store oneRecord ''massspec_a'') =
      Some (recordA ''pending'')"
    using oneRecord_parse oneRecord_facts(4)
      toMassSpecData_storedForm [of "recordA ''pending''"]
    by (simp add: decodeBytes_def recordA_def)
  moreover have "owner (recordA ''pending'') = Some (JStr ''0xA1'')"
    by (simp add: recordA_def)
  moreover have "sets oneRecord = []"
    by (simp add: oneRecord_def ledgerOf_def)
  ultimately show ?thesis
    using analyzeData_ok [OF oneRecord_facts(1,2,3,4) oneRecord_parse, of "''0xB2''"]
    by (simp add: analyzedText_eq analyzeSuccess_def)
qed

text \<open>
  Claim C1, amended. The owner check, a comparison of the two strings in lower case,
  decides only whether a row shows the Analyze button: for a record whose owner differs
  from the account the button is absent, so the interface starts no analysis and writes
  nothing. \<^verbatim>\<open>analyzeData\<close> itself makes no owner check: what it does to the ledger is the
  same for every account.
\<close>

theorem analyze_offered_to_owner_only:
  assumes "owner d = Some (JStr address)" and "\<not> isOwner (account st) address"
  shows "showsAnalyze st d = Inr False
       \<and> clickAnalyze J d st w = (st, w)
       \<and> isOwner (account st) address = (toLowerCase (account st) = toLowerCase address)
       \<and> analyzeData J dataId (st\<lparr>account := a\<rparr>) w' =
           ((fst (analyzeData J dataId st w'))\<lparr>account := a\<rparr>, snd (analyzeData J dataId st w'))"
  using assms analyzeData_account [of J dataId a st w']
  by (simp add: showsAnalyze_def clickAnalyze_def isOwner_def)

theorem analyze_offered_to_owner_only_witness:
  "owner (recordA ''pending'') = Some (JStr ''0xA1'')
   \<and> \<not> isOwner (account (session ''0xB2'')) ''0xA1''
   \<and> showsAnalyze (session ''0xB2'') (recordA ''pending'') = Inr False
   \<and> clickAnalyze asciiJson (recordA ''pending'') (session ''0xB2'') oneRecord =
        (session ''0xB2'', oneRecord)"
proof -
  have h1: "owner (recordA ''pending'') = Some (JStr ''0xA1'')"
    by (simp add: recordA_def)
  have h2: "\<not> isOwner (account (session ''0xB2'')) ''0xA1''"
    by (simp add: isOwner_def toLowerCase_def lowerChar_def session_def)
  show ?thesis
    using analyze_offered_to_owner_only [OF h1 h2, of asciiJson oneRecord] h1 h2 by simp
qed

section \<open>Analysis and the status\<close>

text \<open>
  Claim C2 as stated fails: \<^verbatim>\<open>analyzeData\<close> does not look at the stored status. Called for
  a record stored with status \<^verbatim>\<open>error\<close> it overwrites the bytes with the analyzed record
  and reports success.
\<close>

theorem analyze_errored_record_overwrites:
  "decodeBytes asciiJson (JStr ''a'') (store errored ''massspec_a'') = Some (recordA ''error'')
   \<and> store (snd (analyzeData asciiJson ''a'' (session ''0xA1'') errored)) ''massspec_a'' =
        analyzedText
   \<and> store (snd (analyzeData asciiJson ''a'' (session ''0xA1'') errored)) ''massspec_a'' \<noteq>
        store errored ''massspec_a''
   \<and> outcome (transactionStatus (fst (analyzeData asciiJson ''a'' (session ''0xA1'') errored))) =
        Success"
proof -
  have "decodeBytes asciiJson (JStr ''a'') (store errored ''massspec_a'') =
      Some (recordA ''error'')"
    using errored_parse errored_facts(3) toMassSpecData_storedForm [of "recordA ''error''"]
    by (simp add: decodeBytes_def recordA_def)
  moreover have "analyzedText \<noteq> store errored ''massspec_a''"
    by (simp add: analyzedText_def errored_def ledgerOf_def)
  ultimately show ?thesis
    using analyzeData_ok [OF oneRecord_facts(1) errored_facts errored_parse, of "''0xA1''"]
    by (simp add: analyzedText_eq analyzeSuccess_def)
qed

text \<open>
  Claim C2, amended. That a record is pending is checked only where a row decides to
  show the Analyze button: for a record that is analyzed or in error the button is
  absent, so the interface starts no analysis and the stored bytes stay as they are.
  \<^verbatim>\<open>analyzeData\<close> itself does not read the status: whenever the record is stored and
  parses, and no call fails, it overwrites the record with status \<^verbatim>\<open>analyzed\<close> and the
  result, and reports success.
\<close>

theorem analyze_offered_for_pending_only:
  assumes "status d = JStr ''analyzed'' \<or> status d = JStr ''error''"
  shows "showsAnalyze st d \<noteq> Inr True
       \<and> clickAnalyze J d st w = (st, w)
       \<and> (provider st \<and> signer w' \<and> allOk w' \<and> store w' (''massspec_'' @ dataId) \<noteq> [] \<and>
          parse J (store w' (''massspec_'' @ dataId)) = Some data \<longrightarrow>
            store (snd (analyzeData J dataId st w')) =
              (store w')(''massspec_'' @ dataId := stringify J (updatedData data)) \<and>
            sets (snd (analyzeData J dataId st w')) =
              sets w' @ [(''massspec_'' @ dataId, stringify J (updatedData data))] \<and>
            transactionStatus (fst (analyzeData J dataId st w')) = analyzeSuccess \<and>
            getProp (updatedData data) ''status'' = Some (JStr ''analyzed'') \<and>
            getProp (updatedData data) ''fheResult'' = Some (JStr fheResultText))"
proof -
  have a: "showsAnalyze st d \<noteq> Inr True"
    using assms by (auto simp: showsAnalyze_def split: option.splits json.splits)
  then have b: "clickAnalyze J d st w = (st, w)"
    by (simp add: clickAnalyze_def)
  show ?thesis
    using a b analyzeData_ok [of st w' dataId J data] getProp_updatedData [of data]
    by blast
qed

theorem analyze_offered_for_pending_only_witness:
  "(status (recordA ''error'') = JStr ''analyzed'' \<or> status (recordA ''error'') = JStr ''error'')
   \<and> showsAnalyze (session ''0xA1'') (recordA ''error'') = Inr False
   \<and> clickAnalyze asciiJson (recordA ''error'') (session ''0xA1'') errored =
        (session ''0xA1'', errored)
   \<and> sets (snd (analyzeData asciiJson ''a'' (session ''0xA1'') errored)) =
        [(''massspec_a'', analyzedText)]"
proof -
  have h: "status (recordA ''error'') = JStr ''analyzed'' \<or> status (recordA ''error'') = JStr ''error''"
    by (simp add: recordA_def)
  have s: "showsAnalyze (session ''0xA1'') (recordA ''error'') = Inr False"
    by (simp add: showsAnalyze_def recordA_def)
  have e: "sets errored = []" by (simp add: errored_def ledgerOf_def)
  show ?thesis
    using analyze_offered_for_pending_only [OF h, of "session ''0xA1''" asciiJson errored errored
        "''a''" "storedForm (recordA ''error'')"]
      h s e oneRecord_facts(1) [of "''0xA1''"] errored_facts errored_parse
    by (simp add: analyzedText_eq)
qed

section \<open>Failures of the analysis\<close>

text \<open>
  Claim C3 as stated fails: no path of \<^verbatim>\<open>analyzeData\<close> writes status \<^verbatim>\<open>error\<close>. When the
  stored bytes do not parse, a failure that is not one of transport, the function
  reports the failure and writes nothing.
\<close>

theorem analyze_parse_failure_writes_nothing:
  "transactionStatus (fst (analyzeData asciiJson ''a'' (session ''0xA1'') truncated)) =
     \<lparr> visible = True, outcome = Failed, message = AnalysisFailed SyntaxError \<rparr>
   \<and> sets (snd (analyzeData asciiJson ''a'' (session ''0xA1'') truncated)) = []
   \<and> store (snd (analyzeData asciiJson ''a'' (session ''0xA1'') truncated)) = store truncated"
  by (simp add: analyzeData_def analyzeDataTry_def getContractWithSigner_def getData_def
      nextReply_def truncated_def ledgerOf_def session_def codec_eval)

text \<open>
  Claim C3, amended. Every failure of \<^verbatim>\<open>analyzeData\<close>, of transport or not, is reported
  to the caller as a failed transaction status and leaves the ledger as it was: nothing
  is written. The function never stores status \<^verbatim>\<open>error\<close>: it writes at most once, and
  what it writes has status \<^verbatim>\<open>analyzed\<close>.
\<close>

theorem analyze_failure_leaves_ledger:
  "(outcome (transactionStatus (fst (analyzeData J dataId st w))) = Failed \<longrightarrow>
      store (snd (analyzeData J dataId st w)) = store w \<and>
      sets (snd (analyzeData J dataId st w)) = sets w)
   \<and> (provider st \<longrightarrow>
        (\<exists>e. transactionStatus (fst (analyzeData J dataId st w)) =
               \<lparr> visible = True, outcome = Failed, message = AnalysisFailed e \<rparr>) \<or>
        transactionStatus (fst (analyzeData J dataId st w)) = analyzeSuccess)
   \<and> (sets (snd (analyzeData J dataId st w)) = sets w \<or>
        (\<exists>data. sets (snd (analyzeData J dataId st w)) =
                  sets w @ [(''massspec_'' @ dataId, stringify J (updatedData data))] \<and>
                getProp (updatedData data) ''status'' = Some (JStr ''analyzed'')))"
proof -
  obtain st' w' where a: "analyzeData J dataId st w = (st', w')"
    by (cases "analyzeData J dataId st w")
  from analyzeData_cases [OF a] show ?thesis
  proof (elim disjE exE conjE)
    assume "st' = st" "w' = w" "\<not> provider st"
    then show ?thesis using a by simp
  next
    fix e
    assume "st' = st\<lparr>transactionStatus :=
                       \<lparr> visible = True, outcome = Failed, message = AnalysisFailed e \<rparr>\<rparr>"
      and "quiet w w'"
    then show ?thesis using a by (simp add: quiet_def)
  next
    fix data l
    assume "st' = st\<lparr>transactionStatus := analyzeSuccess, dataList := l,
                      isRefreshing := False, loading := False\<rparr>"
      and "sets w' = sets w @ [(''massspec_'' @ dataId, stringify J (updatedData data))]"
    then show ?thesis
      using a getProp_updatedData(1) [of data] by (auto simp: analyzeSuccess_def)
  qed
qed

theorem analyze_failure_leaves_ledger_witness:
  "outcome (transactionStatus (fst (analyzeData asciiJson ''a'' (session ''0xA1'') timeouts))) = Failed
   \<and> message (transactionStatus (fst (analyzeData asciiJson ''a'' (session ''0xA1'') timeouts))) =
        AnalysisFailed (TransportError ''timeout'')
   \<and> provider (session ''0xA1'')
   \<and> store (snd (analyzeData asciiJson ''a'' (session ''0xA1'') timeouts)) = store timeouts
   \<and> sets (snd (analyzeData asciiJson ''a'' (session ''0xA1'') timeouts)) = sets timeouts"
proof -
  have t: "transactionStatus (fst (analyzeData asciiJson ''a'' (session ''0xA1'') timeouts)) =
      \<lparr> visible = True, outcome = Failed, message = AnalysisFailed (TransportError ''timeout'') \<rparr>"
    by (simp add: analyzeData_def analyzeDataTry_def getContractWithSigner_def getData_def
        nextReply_def timeouts_def oneRecord_def ledgerOf_def session_def)
  show ?thesis
    using analyze_failure_leaves_ledger [of asciiJson "''a''" "session ''0xA1''" timeouts] t
      oneRecord_facts(1) [of "''0xA1''"]
    by simp
qed

section \<open>Listing\<close>





section \<open>The stored form of a record\<close>





section \<open>Analysis of a missing record\<close>

text \<open>
  Claim C7. When nothing is stored under the key of an identifier, \<^verbatim>\<open>analyzeData\<close> leaves
  the ledger as it was, whatever else happens: no \<^verbatim>\<open>setData\<close> is acknowledged. With a
  connected wallet, a signer and no failure of transport, the failure reported is
  \<^verbatim>\<open>Data not found\<close>.
\<close>

theorem analyze_missing_record_not_found:
  assumes "store w (''massspec_'' @ dataId) = []"
  shows "store (snd (analyzeData J dataId st w)) = store w
       \<and> sets (snd (analyzeData J dataId st w)) = sets w
       \<and> (provider st \<and> signer w \<and> allOk w \<longrightarrow>
            transactionStatus (fst (analyzeData J dataId st w)) =
              \<lparr> visible = True, outcome = Failed,
                message = AnalysisFailed (Error ''Data not found'') \<rparr>)"
proof -
  obtain st' w' where a: "analyzeData J dataId st w = (st', w')"
    by (cases "analyzeData J dataId st w")
  have "store w' = store w \<and> sets w' = sets w"
    using analyzeData_cases [OF a] assms by (auto simp: quiet_def)
  moreover have "provider st \<and> signer w \<and> allOk w \<longrightarrow>
            transactionStatus (fst (analyzeData J dataId st w)) =
              \<lparr> visible = True, outcome = Failed,
                message = AnalysisFailed (Error ''Data not found'') \<rparr>"
    using analyzeData_not_found [of st w dataId J] assms by simp
  ultimately show ?thesis using a by simp
qed

theorem analyze_missing_record_not_found_witness:
  "store (ledgerOf []) (''massspec_'' @ ''missing-id'') = []
   \<and> provider (session ''0xA1'') \<and> signer (ledgerOf []) \<and> allOk (ledgerOf [])
   \<and> sets (snd (analyzeData asciiJson ''missing-id'' (session ''0xA1'') (ledgerOf []))) = []
   \<and> transactionStatus (fst (analyzeData asciiJson ''missing-id'' (session ''0xA1'') (ledgerOf []))) =
        \<lparr> visible = True, outcome = Failed,
          message = AnalysisFailed (Error ''Data not found'') \<rparr>"
proof -
  have h: "store (ledgerOf []) (''massspec_'' @ ''missing-id'') = []"
    by (simp add: ledgerOf_def)
  have p: "provider (session ''0xA1'')" "signer (ledgerOf [])" "allOk (ledgerOf [])"
    "sets (ledgerOf []) = []"
    by (simp_all add: ledgerOf_def session_def allOk_def)
  show ?thesis
    using analyze_missing_record_not_found [OF h, of asciiJson "session ''0xA1''"] h p by simp
qed

section \<open>Records without a status\<close>

lemma noStatus_index:
  "readKeys asciiJson (store noStatus ''massspec_keys'') = JArr [JStr ''a'', JStr ''b'']"
  by (simp add: noStatus_def model_eval codec_eval)

lemma noStatus_a:
  \<open>parse asciiJson (store noStatus (''massspec_'' @ toString (JStr ''a''))) =
     Some (JObj [(''data'', JStr ''FHE-MS-eA==''), (''timestamp'', JNum 100),
                 (''owner'', JStr ''0xA1''), (''sampleType'', JStr ''Protein'')])\<close>
  by (simp add: noStatus_def model_eval codec_eval)

text \<open>
  Claim C10. A stored record whose parsed object has no \<^verbatim>\<open>status\<close> field, or an empty one,
  is listed with status \<^verbatim>\<open>pending\<close> and its other fields as stored: it is neither left
  out nor given another status.
\<close>

theorem listAll_defaults_missing_status:
  assumes "allOk w" and "readOnly w" and "available w"
    and "readKeys J (store w ''massspec_keys'') = JArr keys"
    and "key \<in> set keys"
    and "store w (''massspec_'' @ toString key) \<noteq> []"
    and "parse J (store w (''massspec_'' @ toString key)) = Some (JObj kvs)"
    and "map_of kvs ''status'' = None \<or> map_of kvs ''status'' = Some (JStr [])"
  shows "\<lparr> ident = key, encryptedData = map_of kvs ''data'',
           timestamp = map_of kvs ''timestamp'', owner = map_of kvs ''owner'',
           sampleType = map_of kvs ''sampleType'', status = JStr ''pending'',
           fheResult = map_of kvs ''fheResult'' \<rparr>
         \<in> set (dataList (fst (loadDataList J st w)))"
proof -
  have "orElse (map_of kvs ''status'') (JStr ''pending'') = JStr ''pending''"
    using assms(8) by (auto simp: orElse_def)
  then have "decodeBytes J key (store w (''massspec_'' @ toString key)) =
      Some \<lparr> ident = key, encryptedData = map_of kvs ''data'',
           timestamp = map_of kvs ''timestamp'', owner = map_of kvs ''owner'',
           sampleType = map_of kvs ''sampleType'', status = JStr ''pending'',
           fheResult = map_of kvs ''fheResult'' \<rparr>"
    using assms(6,7) by (simp add: decodeBytes_def toMassSpecData_def)
  then show ?thesis
    using assms(5) unfolding set_loadDataList [OF assms(1,2,3,4)] by blast
qed

theorem listAll_defaults_missing_status_witness:
  "allOk noStatus \<and> readOnly noStatus \<and> available noStatus
   \<and> JStr ''a'' \<in> set [JStr ''a'', JStr ''b'']
   \<and> store noStatus (''massspec_'' @ toString (JStr ''a'')) \<noteq> []
   \<and> \<lparr> ident = JStr ''a'', encryptedData = Some (JStr ''FHE-MS-eA==''),
        timestamp = Some (JNum 100), owner = Some (JStr ''0xA1''),
        sampleType = Some (JStr ''Protein''), status = JStr ''pending'',
        fheResult = None \<rparr>
      \<in> set (dataList (fst (loadDataList asciiJson (session ''0xA1'') noStatus)))"
proof -
  have h1: "allOk noStatus" and h2: "readOnly noStatus" and h3: "available noStatus"
    by (simp_all add: noStatus_def ledgerOf_def allOk_def)
  have h5: "JStr ''a'' \<in> set [JStr ''a'', JStr ''b'']" by simp
  have h6: "store noStatus (''massspec_'' @ toString (JStr ''a'')) \<noteq> []"
    by (simp add: noStatus_def ledgerOf_def)
  have h8: "map_of [(''data'', JStr ''FHE-MS-eA==''), (''timestamp'', JNum 100),
                 (''owner'', JStr ''0xA1''), (''sampleType'', JStr ''Protein'')] ''status'' = None
     \<or> map_of [(''data'', JStr ''FHE-MS-eA==''), (''timestamp'', JNum 100),
                 (''owner'', JStr ''0xA1''), (''sampleType'', JStr ''Protein'')] ''status'' = Some (JStr [])"
    by simp
  show ?thesis
    using listAll_defaults_missing_status [OF h1 h2 h3 noStatus_index h5 h6 noStatus_a h8,
        of "session ''0xA1''"] h1 h2 h3 h5 h6
    by simp
qed

end
